theory Spec2Isabelle
  imports Main "HOL-Library.AList"
begin

section \<open>Values and errors\<close>

text \<open>
  A JSON document as \<^verbatim>\<open>json.loads\<close> returns it: \<^verbatim>\<open>None\<close>, booleans, integers,
  strings, lists and dictionaries. A dictionary is an association list in insertion
  order; \<^verbatim>\<open>d[k]\<close> is \<open>map_of d k\<close>, \<^verbatim>\<open>d[k] = v\<close> is \<open>AList.update k v d\<close> and
  \<^verbatim>\<open>d.pop(k, None)\<close> leaves \<open>AList.delete k d\<close>.
\<close>

datatype json =
    JNull
  | JBool bool
  | JNum int
  | JStr string
  | JArr "json list"
  | JObj "(string \<times> json) list"

text \<open>
  The content of the \<^verbatim>\<open>serialized_data\<close> text column, identified by what \<^verbatim>\<open>json.loads\<close>
  makes of it: \<open>NotJSON\<close> is any text that does not parse, \<open>Doc j\<close> any text that parses
  to \<open>j\<close>; \<^verbatim>\<open>json.dumps(j)\<close> is \<open>Doc j\<close>. The column is nullable, so a row holds a
  \<open>textdata option\<close>.
\<close>

datatype textdata = NotJSON | Doc json

text \<open>The exceptions the module raises or lets through.\<close>

datatype error =
    DoesNotExist
  | AttributeError
  | NoPrevChangesError
  | TypeError
  | ValueError
  | KeyError
  | IndexError
  | DeserializationError
  | StopIteration
  | IntegrityError
  | UnknownType
  | AssertionError

section \<open>Tables\<close>

text \<open>
  A model class is identified with the identifier of its content type:
  \<^verbatim>\<open>ContentType.objects.get_for_model(model).id\<close> is the model itself. Primary keys are
  compared as text, as the \<^verbatim>\<open>object_id\<close> column stores them.
\<close>

type_synonym model = nat
type_synonym key = string

text \<open>
  An instance of a tracked model: its class, its primary key (\<open>None\<close> on an instance
  that was never saved) and its field values.
\<close>

record obj =
  model :: model
  pk :: "key option"
  field_values :: "(string \<times> json) list"

text \<open>Class \<^verbatim>\<open>Revision\<close>: \<^verbatim>\<open>id\<close> and \<^verbatim>\<open>comment\<close> (timestamps are never read and left out).\<close>

record Revision =
  rev_id :: nat
  rev_comment :: "string option"

text \<open>Class \<^verbatim>\<open>Changes\<close>, one row of history; \<open>ch_id\<close> is the column \<^verbatim>\<open>id\<close>.\<close>

record Changes =
  ch_id :: nat
  user :: "nat option"
  comment :: string
  object_id :: key
  content_type_id :: model
  db :: string
  serialized_data :: "textdata option"
  object_repr :: string
  revision_id :: "nat option"
  action :: string

text \<open>
  The database: the rows of the tracked models (\<open>live\<close>, keyed by model and primary
  key), the \<^verbatim>\<open>Changes\<close> table (\<open>history\<close>), the \<^verbatim>\<open>Revision\<close> table, the sequence that
  numbers rows inserted without a key, and the acting user.
\<close>

record database =
  live :: "((model \<times> key) \<times> (string \<times> json) list) list"
  history :: "Changes list"
  revisions :: "Revision list"
  next_pk :: nat
  current_user :: "nat option"

text \<open>
  What a foreign key does to the rows that point to a row that is deleted: \<^verbatim>\<open>CASCADE\<close>
  deletes them, \<^verbatim>\<open>SET_NULL\<close> clears their reference.
\<close>

datatype on_delete = CASCADE | SET_NULL

text \<open>
  What the application declares: the label of each model (\<^verbatim>\<open>"app.model"\<close>, as the
  serializer writes it), the field names of each model, \<^verbatim>\<open>model._meta.related_objects\<close>,
  and the columns that are declared with \<^verbatim>\<open>on_delete=models.SET_NULL\<close> (a column that is
  not listed cascades, the default of Django 1.x). A relation is the reverse side of a
  column \<open>field_name\<close> of \<open>related_model\<close> that holds the key of the row it points to;
  \<open>one_to_one\<close> says that the column is a \<^verbatim>\<open>OneToOneField\<close>.
\<close>

record relation =
  one_to_one :: bool
  related_model :: model
  field_name :: string

record schema =
  labels :: "(string \<times> model) list"
  columns :: "(model \<times> string list) list"
  related_objects :: "(model \<times> relation list) list"
  set_null :: "(model \<times> string) list"

section \<open>The persistence layer\<close>

text \<open>Decimal notation, for keys that JSON carries as numbers.\<close>

definition digit :: "nat \<Rightarrow> char" where
  "digit n = ''0123456789'' ! (n mod 10)"

fun dec :: "nat \<Rightarrow> string" where
  "dec n = (if n < 10 then [digit n] else dec (n div 10) @ [digit n])"

declare dec.simps [simp del]

definition str_int :: "int \<Rightarrow> string" where
  "str_int i = (if i < 0 then CHR ''-'' # dec (nat (- i)) else dec (nat i))"

text \<open>
  The key a JSON value stands for, as text: a string is itself, a number is written in
  decimal. Other values are no key.
\<close>

fun key_of_json :: "json \<Rightarrow> key option" where
  "key_of_json (JStr s) = Some s"
| "key_of_json (JNum i) = Some (str_int i)"
| "key_of_json _ = None"

text \<open>
  The default manager, ordered by \<^verbatim>\<open>("-pk",)\<close> as \<^verbatim>\<open>Changes.Meta\<close> says:
  \<^verbatim>\<open>Changes.objects.filter(...)\<close> and \<^verbatim>\<open>.first()\<close>.
\<close>

definition objects_filter :: "(Changes \<Rightarrow> bool) \<Rightarrow> database \<Rightarrow> Changes list" where
  "objects_filter P s = rev (sort_key ch_id (filter P (history s)))"

definition first :: "'a list \<Rightarrow> 'a option" where
  "first xs = (case xs of [] \<Rightarrow> None | x # _ \<Rightarrow> Some x)"

text \<open>
  \<^verbatim>\<open>model.objects.get(pk=k)\<close>: the row, or \<^verbatim>\<open>DoesNotExist\<close>.
\<close>

definition objects_get :: "model \<Rightarrow> key \<Rightarrow> database \<Rightarrow> error + obj" where
  "objects_get m k s =
     (case map_of (live s) (m, k) of
        None \<Rightarrow> Inl DoesNotExist
      | Some fs \<Rightarrow> Inr \<lparr>model = m, pk = Some k, field_values = fs\<rparr>)"

text \<open>
  The generic foreign key \<^verbatim>\<open>object = GenericForeignKey(ct_field="content_type",
  fk_field="object_id")\<close>. Reading it looks the row up by content type and key; Django's
  descriptor catches \<^verbatim>\<open>ObjectDoesNotExist\<close> and yields \<^verbatim>\<open>None\<close> when there is no row.
\<close>

definition object :: "database \<Rightarrow> Changes \<Rightarrow> obj option" where
  "object s self =
     (case objects_get (content_type_id self) (object_id self) s of
        Inl _ \<Rightarrow> None
      | Inr ob \<Rightarrow> Some ob)"

text \<open>
  \<^verbatim>\<open>obj.save()\<close>: with a key, the row is updated, or inserted when there is none; without
  a key the row is inserted under the next value of the sequence, and the insert fails
  when that key is taken. The saved instance carries its key.
\<close>

definition save :: "obj \<Rightarrow> database \<Rightarrow> error + obj \<times> database" where
  "save ob s =
     (case pk ob of
        Some k \<Rightarrow> Inr (ob, s\<lparr>live := AList.update (model ob, k) (field_values ob) (live s)\<rparr>)
      | None \<Rightarrow>
          (let k = dec (next_pk s) in
           if map_of (live s) (model ob, k) \<noteq> None then Inl IntegrityError
           else Inr (ob\<lparr>pk := Some k\<rparr>,
                     s\<lparr>live := live s @ [((model ob, k), field_values ob)],
                       next_pk := Suc (next_pk s)\<rparr>)))"

text \<open>
  \<^verbatim>\<open>getattr(obj, rel_model.get_accessor_name())\<close>: the keys of the rows of the related
  model whose column points to the key \<open>k\<close>, in table order.
\<close>

definition accessor_keys :: "database \<Rightarrow> relation \<Rightarrow> key \<Rightarrow> key list" where
  "accessor_keys s r k =
     map (\<lambda>row. snd (fst row))
       (filter (\<lambda>row. fst (fst row) = related_model r \<and>
                  (case map_of (snd row) (field_name r) of
                     None \<Rightarrow> False
                   | Some v \<Rightarrow> key_of_json v = Some k))
          (live s))"

definition relations_of :: "schema \<Rightarrow> model \<Rightarrow> relation list" where
  "relations_of sc m = (case map_of (related_objects sc) m of None \<Rightarrow> [] | Some rs \<Rightarrow> rs)"

definition rule_of :: "schema \<Rightarrow> relation \<Rightarrow> on_delete" where
  "rule_of sc r =
     (if (related_model r, field_name r) \<in> set (set_null sc) then SET_NULL else CASCADE)"

text \<open>
  The rows that point to the row \<open>x\<close> through a column with the given rule, each with
  the name of that column.
\<close>

definition pointing ::
  "schema \<Rightarrow> database \<Rightarrow> on_delete \<Rightarrow> model \<times> key \<Rightarrow> ((model \<times> key) \<times> string) list" where
  "pointing sc s rule x =
     concat (map (\<lambda>r. map (\<lambda>k'. ((related_model r, k'), field_name r)) (accessor_keys s r (snd x)))
               (filter (\<lambda>r. rule_of sc r = rule) (relations_of sc (fst x))))"

text \<open>
  The rows a deletion takes with it, as Django's collector gathers them: the rows on
  the work list, the rows that point to them through cascading columns, and so on.
  A row is collected once, and only rows of the table are collected, so the work ends.
\<close>

function cascade ::
  "schema \<Rightarrow> database \<Rightarrow> (model \<times> key) list \<Rightarrow> (model \<times> key) list \<Rightarrow> (model \<times> key) list" where
  "cascade sc s [] collected = collected"
| "cascade sc s (x # todo) collected =
     (if x \<in> set collected \<or> map_of (live s) x = None then cascade sc s todo collected
      else cascade sc s (map fst (pointing sc s CASCADE x) @ todo) (x # collected))"
  by pat_completeness auto
termination
proof (relation "measures [\<lambda>(sc, s, todo, collected). card (fst ` set (live s) - set collected),
                           \<lambda>(sc, s, todo, collected). length todo]", goal_cases)
  case 1
  show ?case by simp
next
  case (2 sc s x todo collected)
  then show ?case by simp
next
  case (3 sc s x todo collected)
  then have "x \<in> fst ` set (live s) - set collected"
    by (auto simp: map_of_eq_None_iff)
  then have "fst ` set (live s) - set (x # collected) \<subset> fst ` set (live s) - set collected"
    by auto
  then have "card (fst ` set (live s) - set (x # collected)) < card (fst ` set (live s) - set collected)"
    by (intro psubset_card_mono) simp_all
  then show ?case by simp
qed

text \<open>
  \<^verbatim>\<open>obj.delete()\<close>: the row of the instance is deleted together with the rows the deletion
  cascades to, and the columns that point to a deleted row and are declared with
  \<^verbatim>\<open>SET_NULL\<close> are cleared. An instance without key cannot be deleted (Django asserts
  that the key is set).
\<close>

definition delete :: "schema \<Rightarrow> obj \<Rightarrow> database \<Rightarrow> error + database" where
  "delete sc ob s =
     (case pk ob of
        None \<Rightarrow> Inl AssertionError
      | Some k \<Rightarrow>
          (let gone = cascade sc s [(model ob, k)] [];
               cleared = concat (map (pointing sc s SET_NULL) gone)
           in Inr (s\<lparr>live :=
                 map (\<lambda>row. (fst row,
                        foldr (\<lambda>c fs. if fst c = fst row then AList.update (snd c) JNull fs else fs)
                          cleared (snd row)))
                   (filter (\<lambda>row. fst row \<notin> set gone) (live s))\<rparr>)))"

text \<open>
  \<^verbatim>\<open>with transaction.atomic():\<close> the block's writes are kept when it ends normally and
  undone when it raises; the exception goes on to the caller.
\<close>

definition atomic :: "(database \<Rightarrow> error + database) \<Rightarrow> database \<Rightarrow> error option \<times> database" where
  "atomic body s = (case body s of Inl e \<Rightarrow> (Some e, s) | Inr s' \<Rightarrow> (None, s'))"

section \<open>The snapshot codec\<close>

text \<open>
  \<^verbatim>\<open>deserialize('json', text)\<close> is a generator over the parsed document, and
  \<^verbatim>\<open>get_object\<close> asks it for one item only. \<open>first_record\<close> is the value the generator's
  loop \<^verbatim>\<open>for d in objects\<close> reaches first: the first element of a list, the first key of
  a dictionary, the first character of a string. An empty document ends the generator
  (\<^verbatim>\<open>StopIteration\<close> from \<^verbatim>\<open>next\<close>); a value that cannot be iterated raises inside the
  deserializer, which turns every exception into \<^verbatim>\<open>DeserializationError\<close>.
\<close>

fun first_record :: "json \<Rightarrow> error + json" where
  "first_record (JArr []) = Inl StopIteration"
| "first_record (JArr (d # _)) = Inr d"
| "first_record (JObj []) = Inl StopIteration"
| "first_record (JObj ((k, _) # _)) = Inr (JStr k)"
| "first_record (JStr []) = Inl StopIteration"
| "first_record (JStr (c # _)) = Inr (JStr [c])"
| "first_record _ = Inl DeserializationError"

text \<open>
  The key of a record: no \<^verbatim>\<open>"pk"\<close> entry, or \<^verbatim>\<open>null\<close>, is an instance without key.
\<close>

definition record_pk :: "(string \<times> json) list \<Rightarrow> error + key option" where
  "record_pk d =
     (case map_of d ''pk'' of
        None \<Rightarrow> Inr None
      | Some JNull \<Rightarrow> Inr None
      | Some v \<Rightarrow>
          (case key_of_json v of
             None \<Rightarrow> Inl DeserializationError
           | Some k \<Rightarrow> Inr (Some k)))"

text \<open>
  One record \<^verbatim>\<open>{"model": label, "pk": key, "fields": {...}}\<close> built into a transient
  instance: the label must be a registered model, \<^verbatim>\<open>"fields"\<close> a dictionary, and every
  name in it a field of the model (\<^verbatim>\<open>Model._meta.get_field\<close> raises for another name).
  The schema gives the fields no types, so the values are kept as the document has them.
\<close>

definition fields_of :: "schema \<Rightarrow> model \<Rightarrow> string list" where
  "fields_of sc m = (case map_of (columns sc) m of None \<Rightarrow> [] | Some cs \<Rightarrow> cs)"

definition python_object :: "schema \<Rightarrow> json \<Rightarrow> error + obj" where
  "python_object sc d =
     (case d of
        JObj m \<Rightarrow>
          (case map_of m ''model'' of
             Some (JStr l) \<Rightarrow>
               (case map_of (labels sc) l of
                  None \<Rightarrow> Inl DeserializationError
                | Some mdl \<Rightarrow>
                    (case record_pk m of
                       Inl e \<Rightarrow> Inl e
                     | Inr k \<Rightarrow>
                         (case map_of m ''fields'' of
                            Some (JObj fs) \<Rightarrow>
                              (if list_all (\<lambda>f. f \<in> set (fields_of sc mdl)) (map fst fs)
                               then Inr \<lparr>model = mdl, pk = k, field_values = fs\<rparr>
                               else Inl DeserializationError)
                          | _ \<Rightarrow> Inl DeserializationError)))
           | _ \<Rightarrow> Inl DeserializationError)
      | _ \<Rightarrow> Inl DeserializationError)"

text \<open>
  \<^verbatim>\<open>Changes.get_object\<close>: \<^verbatim>\<open>next(deserialize('json', self.serialized_data)).object\<close>. On
  \<^verbatim>\<open>None\<close> the deserializer calls \<^verbatim>\<open>.read()\<close> on it before its \<^verbatim>\<open>try\<close>: \<^verbatim>\<open>AttributeError\<close>.
\<close>

definition get_object :: "schema \<Rightarrow> Changes \<Rightarrow> error + obj" where
  "get_object sc self =
     (case serialized_data self of
        None \<Rightarrow> Inl AttributeError
      | Some NotJSON \<Rightarrow> Inl DeserializationError
      | Some (Doc j) \<Rightarrow>
          (case first_record j of
             Inl e \<Rightarrow> Inl e
           | Inr d \<Rightarrow> python_object sc d))"

section \<open>Recording a change\<close>

definition label_of :: "schema \<Rightarrow> model \<Rightarrow> string option" where
  "label_of sc m = map_option fst (find (\<lambda>lm. snd lm = m) (labels sc))"

text \<open>
  Modelled from the spec: the encoder of the Snapshot Codec (section 4.2) is Django's
  serializer, called by \<^verbatim>\<open>create_changes\<close>, and not among the sources. The blob is a
  single-element sequence holding one record with the type, the primary key and the
  mapping of field names to values; a type that was never registered is \<^verbatim>\<open>UnknownType\<close>.
\<close>

definition encode :: "schema \<Rightarrow> obj \<Rightarrow> error + textdata" where
  "encode sc ob =
     (case label_of sc (model ob) of
        None \<Rightarrow> Inl UnknownType
      | Some l \<Rightarrow>
          Inr (Doc (JArr [JObj [(''model'', JStr l),
                                (''pk'', (case pk ob of None \<Rightarrow> JNull | Some k \<Rightarrow> JStr k)),
                                (''fields'', JObj (field_values ob))]])))"

definition next_id :: "database \<Rightarrow> nat" where
  "next_id s = Suc (foldr max (map ch_id (history s)) 0)"

text \<open>
  Modelled from the spec: \<^verbatim>\<open>create_changes(obj, using, comment, action)\<close> of
  \<^verbatim>\<open>models_logging.revisions\<close> is imported by the module and not among the sources. By
  sections 2 and 6 of the spec (record-change) it encodes the object and wraps the blob
  in one new Change Entry with the next identifier, the acting user, the comment and the
  action given, the object's type and key, and no revision when none is passed.
\<close>

definition create_changes ::
  "schema \<Rightarrow> obj \<Rightarrow> string \<Rightarrow> string \<Rightarrow> string \<Rightarrow> database \<Rightarrow> error + database" where
  "create_changes sc ob using cmt act s =
     (case encode sc ob of
        Inl e \<Rightarrow> Inl e
      | Inr blob \<Rightarrow>
          Inr (s\<lparr>history := history s @
                 [\<lparr>ch_id = next_id s, user = current_user s, comment = cmt,
                   object_id = (case pk ob of None \<Rightarrow> ''None'' | Some k \<Rightarrow> k),
                   content_type_id = model ob, db = using,
                   serialized_data = Some blob,
                   object_repr = (case label_of sc (model ob) of None \<Rightarrow> [] | Some l \<Rightarrow> l) @ '' object'',
                   revision_id = None, action = act\<rparr>]\<rparr>))"

section \<open>Class Changes\<close>

text \<open>
  \<^verbatim>\<open>Changes.prev_changes\<close>: the first row, newest first, of the same content type and
  object with a smaller identifier; \<^verbatim>\<open>None\<close> when there is none.
\<close>

definition prev_changes :: "database \<Rightarrow> Changes \<Rightarrow> Changes option" where
  "prev_changes s self =
     first (objects_filter
       (\<lambda>c. content_type_id c = content_type_id self \<and> object_id c = object_id self \<and>
            ch_id c < ch_id self) s)"

text \<open>
  \<^verbatim>\<open>Changes.revert\<close>. The three branches in the source's order, inside
  \<^verbatim>\<open>transaction.atomic()\<close>. In the last branch \<^verbatim>\<open>self.prev_changes.object.save()\<close> raises
  \<^verbatim>\<open>AttributeError\<close> when \<^verbatim>\<open>prev_changes\<close> is \<^verbatim>\<open>None\<close> and when its \<^verbatim>\<open>object\<close> is \<^verbatim>\<open>None\<close>;
  the handler turns both into \<^verbatim>\<open>NoPrevChangesError\<close>. In the first branch nothing
  catches the \<^verbatim>\<open>AttributeError\<close> of \<^verbatim>\<open>None.delete()\<close>.
\<close>

definition revert :: "schema \<Rightarrow> Changes \<Rightarrow> database \<Rightarrow> error option \<times> database" where
  "revert sc self =
     atomic (\<lambda>s.
       if action self = ''Added'' then
         (case object s self of
            None \<Rightarrow> Inl AttributeError
          | Some ob \<Rightarrow> delete sc ob s)
       else if action self = ''Deleted'' then
         (case get_object sc self of
            Inl e \<Rightarrow> Inl e
          | Inr ob \<Rightarrow>
              (case save ob s of
                 Inl e \<Rightarrow> Inl e
               | Inr (ob', s') \<Rightarrow> create_changes sc ob' ''default'' ''Recover object'' ''Added'' s'))
       else
         (case prev_changes s self of
            None \<Rightarrow> Inl NoPrevChangesError
          | Some p \<Rightarrow>
              (case object s p of
                 None \<Rightarrow> Inl NoPrevChangesError
               | Some ob \<Rightarrow>
                   (case save ob s of
                      Inl e \<Rightarrow> Inl e
                    | Inr (_, s') \<Rightarrow> Inr s'))))"

text \<open>
  \<^verbatim>\<open>json.loads(self.serialized_data)\<close>: \<^verbatim>\<open>TypeError\<close> on \<^verbatim>\<open>None\<close>, \<^verbatim>\<open>ValueError\<close> on text
  that is not JSON.
\<close>

definition loads :: "textdata option \<Rightarrow> error + json" where
  "loads t =
     (case t of
        None \<Rightarrow> Inl TypeError
      | Some NotJSON \<Rightarrow> Inl ValueError
      | Some (Doc j) \<Rightarrow> Inr j)"

text \<open>The subscript \<^verbatim>\<open>[0]\<close> on the parsed document.\<close>

fun item0 :: "json \<Rightarrow> error + json" where
  "item0 (JArr []) = Inl IndexError"
| "item0 (JArr (x # _)) = Inr x"
| "item0 (JObj _) = Inl KeyError"
| "item0 (JStr []) = Inl IndexError"
| "item0 (JStr (c # _)) = Inr (JStr [c])"
| "item0 _ = Inl TypeError"

text \<open>
  \<^verbatim>\<open>self.save()\<close> on a \<^verbatim>\<open>Changes\<close> instance: the row with its identifier is replaced, or
  the instance is inserted when no row has it.
\<close>

definition save_changes :: "Changes \<Rightarrow> database \<Rightarrow> database" where
  "save_changes c s =
     s\<lparr>history :=
         (if ch_id c \<in> set (map ch_id (history s))
          then map (\<lambda>r. if ch_id r = ch_id c then c else r) (history s)
          else history s @ [c])\<rparr>"

text \<open>
  The body of \<^verbatim>\<open>set_attr\<close> on the parsed record:
  \<^verbatim>\<open>if attr in data: data[attr] = value  else: data['fields'][attr] = value\<close>.
  On a record that is no dictionary either the test or the assignment raises
  \<^verbatim>\<open>TypeError\<close>; so does the assignment into a \<^verbatim>\<open>"fields"\<close> value that is no dictionary.
\<close>

fun set_item :: "json \<Rightarrow> string \<Rightarrow> json \<Rightarrow> error + json" where
  "set_item (JObj d) attr v =
     (if map_of d attr \<noteq> None then Inr (JObj (AList.update attr v d))
      else
        (case map_of d ''fields'' of
           None \<Rightarrow> Inl KeyError
         | Some (JObj fs) \<Rightarrow>
             Inr (JObj (AList.update ''fields'' (JObj (AList.update attr v fs)) d))
         | Some _ \<Rightarrow> Inl TypeError))"
| "set_item _ attr v = Inl TypeError"

definition set_attr :: "Changes \<Rightarrow> string \<Rightarrow> json \<Rightarrow> database \<Rightarrow> error + Changes \<times> database" where
  "set_attr self attr v s =
     (case loads (serialized_data self) of
        Inl e \<Rightarrow> Inl e
      | Inr j \<Rightarrow>
          (case item0 j of
             Inl e \<Rightarrow> Inl e
           | Inr data \<Rightarrow>
               (case set_item data attr v of
                  Inl e \<Rightarrow> Inl e
                | Inr data' \<Rightarrow>
                    (let self' = self\<lparr>serialized_data := Some (Doc (JArr [data']))\<rparr>
                     in Inr (self', save_changes self' s)))))"

text \<open>
  The body of \<^verbatim>\<open>del_attr\<close>: \<^verbatim>\<open>data['fields'].pop(attr, None)\<close>. A list has no
  two-argument \<^verbatim>\<open>pop\<close> (\<^verbatim>\<open>TypeError\<close>); strings, numbers, booleans and \<^verbatim>\<open>None\<close> have no
  \<^verbatim>\<open>pop\<close> at all (\<^verbatim>\<open>AttributeError\<close>).
\<close>

fun pop_item :: "json \<Rightarrow> string \<Rightarrow> error + json" where
  "pop_item (JObj d) attr =
     (case map_of d ''fields'' of
        None \<Rightarrow> Inl KeyError
      | Some (JObj fs) \<Rightarrow> Inr (JObj (AList.update ''fields'' (JObj (AList.delete attr fs)) d))
      | Some (JArr _) \<Rightarrow> Inl TypeError
      | Some _ \<Rightarrow> Inl AttributeError)"
| "pop_item _ attr = Inl TypeError"

definition del_attr :: "Changes \<Rightarrow> string \<Rightarrow> database \<Rightarrow> error + Changes \<times> database" where
  "del_attr self attr s =
     (case loads (serialized_data self) of
        Inl e \<Rightarrow> Inl e
      | Inr j \<Rightarrow>
          (case item0 j of
             Inl e \<Rightarrow> Inl e
           | Inr data \<Rightarrow>
               (case pop_item data attr of
                  Inl e \<Rightarrow> Inl e
                | Inr data' \<Rightarrow>
                    (let self' = self\<lparr>serialized_data := Some (Doc (JArr [data']))\<rparr>
                     in Inr (self', save_changes self' s)))))"

text \<open>
  The loop of \<^verbatim>\<open>get_changes_by_obj\<close> over \<^verbatim>\<open>related_objects\<close>. The dictionary
  \<^verbatim>\<open>history_objects\<close> maps a content type to a list of keys;
  \<^verbatim>\<open>history_objects.update({key: values})\<close> stores \<^verbatim>\<open>values\<close> under \<^verbatim>\<open>key\<close>. A one-to-one
  relation with no related row raises \<^verbatim>\<open>DoesNotExist\<close>, which is caught: \<^verbatim>\<open>continue\<close>.
\<close>

fun collect :: "database \<Rightarrow> key \<Rightarrow> relation list \<Rightarrow> (model \<times> key list) list \<Rightarrow> (model \<times> key list) list" where
  "collect s k [] history_objects = history_objects"
| "collect s k (rel_model # rest) history_objects =
     (if one_to_one rel_model then
        (case accessor_keys s rel_model k of
           [] \<Rightarrow> collect s k rest history_objects
         | v # _ \<Rightarrow> collect s k rest (AList.update (related_model rel_model) [v] history_objects))
      else
        collect s k rest
          (AList.update (related_model rel_model) (accessor_keys s rel_model k) history_objects))"

text \<open>The argument \<^verbatim>\<open>related_objects\<close>: \<^verbatim>\<open>'__all__'\<close> or a list of relations.\<close>

datatype related_arg = All | Listed "relation list"

text \<open>
  \<^verbatim>\<open>Q(content_type_id=k, object_id__in=v)\<close> joined by \<^verbatim>\<open>OR\<close> over the items of
  \<^verbatim>\<open>history_objects\<close>.
\<close>

definition qobj :: "(model \<times> key list) list \<Rightarrow> Changes \<Rightarrow> bool" where
  "qobj history_objects c =
     list_ex (\<lambda>kv. content_type_id c = fst kv \<and> object_id c \<in> set (snd kv)) history_objects"

definition get_changes_by_obj ::
  "schema \<Rightarrow> database \<Rightarrow> model \<Rightarrow> key \<Rightarrow> related_arg \<Rightarrow> error + Changes list" where
  "get_changes_by_obj sc s m obj_id related =
     (case objects_get m obj_id s of
        Inl e \<Rightarrow> Inl e
      | Inr ob \<Rightarrow>
          (let rels = (case related of
                         All \<Rightarrow> (case map_of (related_objects sc) m of None \<Rightarrow> [] | Some rs \<Rightarrow> rs)
                       | Listed rs \<Rightarrow> rs);
               history_objects = collect s obj_id rels [(m, [obj_id])]
           in Inr (objects_filter (qobj history_objects) s)))"

section \<open>Class Revision\<close>

text \<open>
  \<^verbatim>\<open>Revision.revert\<close>: \<^verbatim>\<open>for i in self.changes_set.all(): i.revert()\<close>. The rows are
  read once, in the default order of \<^verbatim>\<open>Changes\<close>; every \<^verbatim>\<open>revert\<close> is a transaction of
  its own, and an exception leaves the loop with the earlier ones committed.
\<close>

fun revert_each :: "schema \<Rightarrow> Changes list \<Rightarrow> database \<Rightarrow> error option \<times> database" where
  "revert_each sc [] s = (None, s)"
| "revert_each sc (i # rest) s =
     (case revert sc i s of
        (Some e, s') \<Rightarrow> (Some e, s')
      | (None, s') \<Rightarrow> revert_each sc rest s')"

definition changes_set :: "Revision \<Rightarrow> database \<Rightarrow> Changes list" where
  "changes_set self s = objects_filter (\<lambda>c. revision_id c = Some (rev_id self)) s"

definition Revision_revert :: "schema \<Rightarrow> Revision \<Rightarrow> database \<Rightarrow> error option \<times> database" where
  "Revision_revert sc self s = revert_each sc (changes_set self s) s"

text \<open>
  What section 4.5 of the specification asks of a run without failure: the entries are
  reverted one after the other in the order of the list, each on the database the one
  before it left, and each succeeds.
\<close>

inductive reverted_in_order :: "schema \<Rightarrow> Changes list \<Rightarrow> database \<Rightarrow> database \<Rightarrow> bool" where
  nothing: "reverted_in_order sc [] s s"
| one_more: "revert sc i s = (None, s1) \<Longrightarrow> reverted_in_order sc rest s1 s2 \<Longrightarrow>
     reverted_in_order sc (i # rest) s s2"

code_pred (modes: i \<Rightarrow> i \<Rightarrow> i \<Rightarrow> o \<Rightarrow> bool, i \<Rightarrow> i \<Rightarrow> i \<Rightarrow> i \<Rightarrow> bool) reverted_in_order .

text \<open>
  The foreign keys of \<^verbatim>\<open>Changes\<close> as declared. \<^verbatim>\<open>user\<close> is declared with
  \<^verbatim>\<open>on_delete=models.SET_NULL\<close>; \<^verbatim>\<open>revision\<close> is declared as
  \<^verbatim>\<open>models.ForeignKey(Revision, blank=True, null=True, verbose_name='to revision')\<close>, with
  no \<^verbatim>\<open>on_delete\<close>. The module imports \<^verbatim>\<open>django.core.urlresolvers\<close>, so it runs on
  Django 1.x only, where a foreign key without \<^verbatim>\<open>on_delete\<close> gets \<^verbatim>\<open>CASCADE\<close>.
\<close>

record foreign_key =
  fk_blank :: bool
  fk_null :: bool
  fk_on_delete :: "on_delete option"

definition user_field :: foreign_key where
  "user_field = \<lparr>fk_blank = True, fk_null = True, fk_on_delete = Some SET_NULL\<rparr>"

definition revision_field :: foreign_key where
  "revision_field = \<lparr>fk_blank = True, fk_null = True, fk_on_delete = None\<rparr>"

definition on_delete_rule :: "foreign_key \<Rightarrow> on_delete" where
  "on_delete_rule f = (case fk_on_delete f of None \<Rightarrow> CASCADE | Some r \<Rightarrow> r)"

text \<open>
  What deleting a referenced row does to the rows that point to it through a foreign
  key: \<^verbatim>\<open>CASCADE\<close> deletes them, \<^verbatim>\<open>SET_NULL\<close> clears their reference.
\<close>

definition on_referenced_delete ::
  "on_delete \<Rightarrow> (Changes \<Rightarrow> bool) \<Rightarrow> (Changes \<Rightarrow> Changes) \<Rightarrow> Changes list \<Rightarrow> Changes list" where
  "on_referenced_delete rule points_to clear rows =
     (case rule of
        CASCADE \<Rightarrow> filter (\<lambda>c. \<not> points_to c) rows
      | SET_NULL \<Rightarrow> map (\<lambda>c. if points_to c then clear c else c) rows)"

text \<open>\<^verbatim>\<open>revision.delete()\<close>, the method every model inherits.\<close>

definition Revision_delete :: "Revision \<Rightarrow> database \<Rightarrow> database" where
  "Revision_delete self s =
     s\<lparr>revisions := filter (\<lambda>r. rev_id r \<noteq> rev_id self) (revisions s),
       history := on_referenced_delete (on_delete_rule revision_field)
                    (\<lambda>c. revision_id c = Some (rev_id self))
                    (\<lambda>c. c\<lparr>revision_id := None\<rparr>)
                    (history s)\<rparr>"

section \<open>A small shop\<close>

text \<open>
  The database the concrete evaluations below run on. Cars (model 1), owners (model 2),
  transfers (model 3, with the two columns \<open>seller\<close> and \<open>buyer\<close> that point to an owner)
  and passports (model 4, one per owner).
\<close>

definition shop :: schema where
  "shop =
     \<lparr>labels = [(''shop.car'', 1), (''shop.owner'', 2), (''shop.transfer'', 3), (''shop.passport'', 4)],
      columns = [(1, [''name'', ''model'']), (2, [''name'']), (3, [''seller'', ''buyer'']),
                 (4, [''owner''])],
      related_objects =
        [(2, [\<lparr>one_to_one = True, related_model = 4, field_name = ''owner''\<rparr>,
              \<lparr>one_to_one = False, related_model = 3, field_name = ''seller''\<rparr>,
              \<lparr>one_to_one = False, related_model = 3, field_name = ''buyer''\<rparr>])],
      set_null = []\<rparr>"

definition snapshot :: "string \<Rightarrow> int \<Rightarrow> (string \<times> json) list \<Rightarrow> textdata option" where
  "snapshot l k fs = Some (Doc (JArr [JObj [(''model'', JStr l), (''pk'', JNum k), (''fields'', JObj fs)]]))"

definition entry ::
  "nat \<Rightarrow> string \<Rightarrow> model \<Rightarrow> key \<Rightarrow> textdata option \<Rightarrow> nat option \<Rightarrow> Changes" where
  "entry n act m k blob r =
     \<lparr>ch_id = n, user = None, comment = act, object_id = k, content_type_id = m,
      db = ''default'', serialized_data = blob, object_repr = ''object'',
      revision_id = r, action = act\<rparr>"

definition car7_added :: Changes where
  "car7_added = entry 1 ''Added'' 1 ''7'' (snapshot ''shop.car'' 7 [(''name'', JStr ''old'')]) (Some 1)"

definition car7_changed :: Changes where
  "car7_changed = entry 2 ''Changed'' 1 ''7'' (snapshot ''shop.car'' 7 [(''name'', JStr ''new'')]) (Some 2)"

definition owner1_added :: Changes where
  "owner1_added = entry 3 ''Added'' 2 ''1'' (snapshot ''shop.owner'' 1 [(''name'', JStr ''Ann'')]) (Some 1)"

definition transfer10_added :: Changes where
  "transfer10_added =
     entry 4 ''Added'' 3 ''10'' (snapshot ''shop.transfer'' 10 [(''seller'', JNum 1), (''buyer'', JNum 2)]) None"

definition car5_added :: Changes where
  "car5_added = entry 5 ''Added'' 1 ''5'' (snapshot ''shop.car'' 5 [(''name'', JStr ''gone'')]) (Some 2)"

definition transfer11_added :: Changes where
  "transfer11_added =
     entry 6 ''Added'' 3 ''11'' (snapshot ''shop.transfer'' 11 [(''seller'', JNum 2), (''buyer'', JNum 1)]) None"

definition car9_changed :: Changes where
  "car9_changed = entry 7 ''Changed'' 1 ''9'' (snapshot ''shop.car'' 9 [(''name'', JStr ''nine'')]) None"

definition car8_deleted :: Changes where
  "car8_deleted = entry 8 ''Deleted'' 1 ''8'' (snapshot ''shop.car'' 8 [(''name'', JStr ''eight'')]) (Some 2)"

definition shop_db :: database where
  "shop_db =
     \<lparr>live = [((1, ''7''), [(''name'', JStr ''new'')]),
              ((2, ''1''), [(''name'', JStr ''Ann'')]),
              ((3, ''10''), [(''seller'', JNum 1), (''buyer'', JNum 2)]),
              ((3, ''11''), [(''seller'', JNum 2), (''buyer'', JNum 1)]),
              ((1, ''9''), [(''name'', JStr ''nine'')])],
      history = [car7_added, car7_changed, owner1_added, transfer10_added, car5_added,
                 transfer11_added, car9_changed, car8_deleted],
      revisions = [\<lparr>rev_id = 1, rev_comment = Some ''import''\<rparr>,
                   \<lparr>rev_id = 2, rev_comment = None\<rparr>],
      next_pk = 100,
      current_user = None\<rparr>"



section \<open>Facts about the manager\<close>

lemmas shop_defs = shop_def shop_db_def snapshot_def entry_def car7_added_def car7_changed_def
  owner1_added_def transfer10_added_def car5_added_def transfer11_added_def car9_changed_def
  car8_deleted_def

lemma objects_filter_empty:
  "\<forall>c \<in> set (history s). \<not> P c \<Longrightarrow> objects_filter P s = []"
  by (simp add: objects_filter_def filter_empty_conv)

lemma set_objects_filter: "set (objects_filter P s) = {c \<in> set (history s). P c}"
  by (auto simp: objects_filter_def)

lemma objects_filter_descending:
  "sorted_wrt (\<lambda>a b. ch_id b \<le> ch_id a) (objects_filter P s)"
proof -
  have "sorted (map ch_id (sort_key ch_id (filter P (history s))))"
    by (rule sorted_sort_key)
  then have "sorted_wrt (\<lambda>a b. ch_id a \<le> ch_id b) (sort_key ch_id (filter P (history s)))"
    by (simp add: sorted_map)
  then show ?thesis
    by (simp add: objects_filter_def sorted_wrt_rev)
qed

text \<open>
  The predecessor \<^verbatim>\<open>prev_changes\<close> finds is the entry of the same content type and
  object with the greatest identifier below the entry's own.
\<close>

lemma prev_changes_greatest:
  assumes "prev_changes s self = Some p"
  shows "p \<in> set (history s) \<and> content_type_id p = content_type_id self \<and>
         object_id p = object_id self \<and> ch_id p < ch_id self \<and>
         (\<forall>c \<in> set (history s).
            content_type_id c = content_type_id self \<and> object_id c = object_id self \<and>
            ch_id c < ch_id self \<longrightarrow> ch_id c \<le> ch_id p)"
proof -
  let ?P = "\<lambda>c. content_type_id c = content_type_id self \<and> object_id c = object_id self \<and>
                 ch_id c < ch_id self"
  from assms obtain rest where l: "objects_filter ?P s = p # rest"
    by (auto simp: prev_changes_def first_def split: list.splits)
  have "p \<in> set (objects_filter ?P s)" by (simp add: l)
  then have 1: "p \<in> set (history s) \<and> ?P p" by (simp add: set_objects_filter)
  have "sorted_wrt (\<lambda>a b. ch_id b \<le> ch_id a) (p # rest)"
    using objects_filter_descending [of ?P s] by (simp add: l)
  then have 2: "\<forall>c \<in> set rest. ch_id c \<le> ch_id p" by simp
  have 3: "ch_id c \<le> ch_id p" if "c \<in> set (history s)" "?P c" for c
  proof -
    from that have "c \<in> set (objects_filter ?P s)" by (simp add: set_objects_filter)
    then have "c = p \<or> c \<in> set rest" by (simp add: l)
    with 2 show ?thesis by auto
  qed
  from 1 3 show ?thesis by blast
qed

section \<open>Reverting one entry\<close>

text \<open>
  C4. An entry whose action is neither \<^verbatim>\<open>'Added'\<close> nor \<^verbatim>\<open>'Deleted'\<close> takes the last
  branch of \<^verbatim>\<open>revert\<close>, the one for changed objects. When no entry of the same content
  type and object has a smaller identifier, \<^verbatim>\<open>revert\<close> raises \<^verbatim>\<open>NoPrevChangesError\<close> and
  the database, live rows and history alike, is what it was.
\<close>

theorem revert_changed_without_predecessor:
  assumes "action self \<noteq> ''Added''" and "action self \<noteq> ''Deleted''"
    and "\<forall>c \<in> set (history s).
           \<not> (content_type_id c = content_type_id self \<and> object_id c = object_id self \<and>
              ch_id c < ch_id self)"
  shows "revert sc self s = (Some NoPrevChangesError, s)"
proof -
  have "prev_changes s self = None"
    using assms(3) by (simp add: prev_changes_def objects_filter_empty first_def)
  then show ?thesis
    using assms(1,2) by (simp add: revert_def atomic_def)
qed

theorem revert_changed_without_predecessor_witness:
  "action car9_changed = ''Changed'' \<and> car9_changed \<in> set (history shop_db) \<and>
   revert shop car9_changed shop_db = (Some NoPrevChangesError, shop_db)"
proof -
  have a: "action car9_changed \<noteq> ''Added''" "action car9_changed \<noteq> ''Deleted''"
    by (simp_all add: car9_changed_def entry_def)
  have b: "\<forall>c \<in> set (history shop_db).
           \<not> (content_type_id c = content_type_id car9_changed \<and>
              object_id c = object_id car9_changed \<and> ch_id c < ch_id car9_changed)"
    by (simp add: shop_defs)
  show ?thesis
    using revert_changed_without_predecessor [OF a b, of shop]
    by (simp add: shop_db_def car9_changed_def entry_def)
qed

text \<open>Deleting a live row takes that row with it, and only rows go.\<close>

lemma cascade_keeps: "set collected \<subseteq> set (cascade sc s todo collected)"
  by (induction sc s todo collected rule: cascade.induct) auto

lemma cascade_root:
  assumes "map_of (live s) x \<noteq> None"
  shows "x \<in> set (cascade sc s [x] [])"
proof -
  have "set [x] \<subseteq> set (cascade sc s (map fst (pointing sc s CASCADE x) @ []) [x])"
    by (rule cascade_keeps)
  with assms show ?thesis by simp
qed

lemma delete_keys:
  assumes "pk ob = Some k" and "delete sc ob s = Inr s'"
  shows "map fst (live s') =
           filter (\<lambda>x. x \<notin> set (cascade sc s [(model ob, k)] [])) (map fst (live s))"
  using assms by (auto simp: delete_def Let_def filter_map comp_def)

text \<open>
  C2, as the code has it. For an entry with action \<^verbatim>\<open>'Added'\<close> whose live row exists,
  \<^verbatim>\<open>revert\<close> succeeds and deletes that row: no row is left at the entry's content type
  and key, and the rows that go are the ones \<^verbatim>\<open>delete\<close> collects (the row itself and the
  rows that point to a collected row through a cascading column). When there is no such
  row, \<^verbatim>\<open>self.object\<close> is \<^verbatim>\<open>None\<close> and \<^verbatim>\<open>None.delete()\<close> raises \<^verbatim>\<open>AttributeError\<close>, which
  reaches the caller; the database is what it was.
\<close>

theorem revert_added:
  assumes "action self = ''Added''"
  shows "(map_of (live s) (content_type_id self, object_id self) = None \<longrightarrow>
            revert sc self s = (Some AttributeError, s)) \<and>
         (map_of (live s) (content_type_id self, object_id self) \<noteq> None \<longrightarrow>
            (\<exists>s'. revert sc self s = (None, s') \<and>
                  map_of (live s') (content_type_id self, object_id self) = None \<and>
                  (content_type_id self, object_id self) \<in>
                     set (cascade sc s [(content_type_id self, object_id self)] []) \<and>
                  map fst (live s') =
                    filter (\<lambda>x. x \<notin> set (cascade sc s [(content_type_id self, object_id self)] []))
                      (map fst (live s))))"
proof (intro conjI impI)
  assume "map_of (live s) (content_type_id self, object_id self) = None"
  with assms show "revert sc self s = (Some AttributeError, s)"
    by (simp add: revert_def atomic_def object_def objects_get_def)
next
  let ?x = "(content_type_id self, object_id self)"
  assume live: "map_of (live s) ?x \<noteq> None"
  then obtain fs where fs: "map_of (live s) ?x = Some fs" by blast
  let ?ob = "\<lparr>model = content_type_id self, pk = Some (object_id self), field_values = fs\<rparr>"
  obtain s' where d: "delete sc ?ob s = Inr s'"
    by (simp add: delete_def Let_def)
  have r: "revert sc self s = (None, s')"
    using assms fs d by (simp add: revert_def atomic_def object_def objects_get_def)
  have root: "?x \<in> set (cascade sc s [?x] [])"
    using live by (rule cascade_root)
  have keys: "map fst (live s') = filter (\<lambda>x. x \<notin> set (cascade sc s [?x] [])) (map fst (live s))"
    using delete_keys [OF _ d] by simp
  have "?x \<notin> set (map fst (live s'))"
    unfolding keys using root by simp
  then have gone: "map_of (live s') ?x = None"
    by (simp add: map_of_eq_None_iff)
  from r gone root keys
  show "\<exists>s'. revert sc self s = (None, s') \<and> map_of (live s') ?x = None \<and>
             ?x \<in> set (cascade sc s [?x] []) \<and>
             map fst (live s') = filter (\<lambda>x. x \<notin> set (cascade sc s [?x] [])) (map fst (live s))"
    by (intro exI [of _ s'] conjI)
qed

lemma shop_cascade_owner1:
  "cascade shop shop_db [(2, ''1'')] [] = [(3, ''11''), (3, ''10''), (2, ''1'')]"
  by (simp add: pointing_def relations_of_def rule_of_def accessor_keys_def str_int_def dec.simps
      digit_def shop_def shop_db_def)

theorem revert_added_witness:
  "revert shop car5_added shop_db = (Some AttributeError, shop_db) \<and>
   (\<exists>s'. revert shop owner1_added shop_db = (None, s') \<and>
         map_of (live s') (2, ''1'') = None \<and>
         map fst (live s') = [(1, ''7''), (1, ''9'')])"
proof -
  have a: "action car5_added = ''Added''" "action owner1_added = ''Added''"
    by (simp_all add: car5_added_def owner1_added_def entry_def)
  have b: "map_of (live shop_db) (content_type_id car5_added, object_id car5_added) = None"
    by (simp add: shop_db_def car5_added_def entry_def)
  have k: "content_type_id owner1_added = 2" "object_id owner1_added = ''1''"
    by (simp_all add: owner1_added_def entry_def)
  have c: "map_of (live shop_db) (content_type_id owner1_added, object_id owner1_added) \<noteq> None"
    by (simp add: shop_db_def k)
  have 1: "revert shop car5_added shop_db = (Some AttributeError, shop_db)"
    by (rule revert_added [OF a(1), THEN conjunct1, THEN mp, OF b])
  from revert_added [where sc = shop and s = shop_db, OF a(2), THEN conjunct2, THEN mp, OF c]
  obtain s' where s': "revert shop owner1_added shop_db = (None, s')"
    "map_of (live s') (2, ''1'') = None"
    "map fst (live s') = filter (\<lambda>x. x \<notin> set (cascade shop shop_db [(2, ''1'')] []))
                           (map fst (live shop_db))"
    unfolding k by (elim exE conjE) (rule that)
  have "map fst (live s') = [(1, ''7''), (1, ''9'')]"
    unfolding s'(3) shop_cascade_owner1 by (simp add: shop_db_def)
  with s'(1,2) have "\<exists>s'. revert shop owner1_added shop_db = (None, s') \<and>
         map_of (live s') (2, ''1'') = None \<and> map fst (live s') = [(1, ''7''), (1, ''9'')]"
    by (intro exI [of _ s'] conjI)
  with 1 show ?thesis by (rule conjI)
qed

text \<open>
  C2 as stated fails: car 5 has an \<^verbatim>\<open>'Added'\<close> entry and no live row, a lookup of the row
  would raise \<^verbatim>\<open>DoesNotExist\<close>, and \<^verbatim>\<open>revert\<close> raises \<^verbatim>\<open>AttributeError\<close> instead.
\<close>

theorem revert_added_missing_row_counterexample:
  "action car5_added = ''Added'' \<and>
   objects_get (content_type_id car5_added) (object_id car5_added) shop_db = Inl DoesNotExist \<and>
   fst (revert shop car5_added shop_db) = Some AttributeError \<and>
   fst (revert shop car5_added shop_db) \<noteq> Some DoesNotExist"
  by (simp add: revert_def atomic_def object_def objects_get_def shop_db_def car5_added_def entry_def)



lemma le_foldr_max: "x \<in> set xs \<Longrightarrow> x \<le> foldr max xs (0::nat)"
  by (induction xs) (auto simp: max_def)

lemma next_id_fresh: "c \<in> set (history s) \<Longrightarrow> ch_id c < next_id s"
  using le_foldr_max [of "ch_id c" "map ch_id (history s)"] by (simp add: next_id_def less_Suc_eq_le)





lemma save_live_row:
  "map_of (live s) (m, k) = Some fs \<Longrightarrow>
   save \<lparr>model = m, pk = Some k, field_values = fs\<rparr> s =
     Inr (\<lparr>model = m, pk = Some k, field_values = fs\<rparr>, s)"
  by (simp add: save_def update_triv)

lemma revert_changed_keeps_database:
  assumes "action self \<noteq> ''Added''" and "action self \<noteq> ''Deleted''"
  shows "snd (revert sc self s) = s"
  using assms
  by (auto simp: revert_def atomic_def object_def objects_get_def save_live_row
      split: option.splits sum.splits)

text \<open>
  C1 on the shop. Car 7 has the entry \<open>car7_added\<close> with the name \<open>old\<close> in its snapshot
  and the later entry \<open>car7_changed\<close>; its live row has the name \<open>new\<close>. The predecessor
  that \<^verbatim>\<open>prev_changes\<close> finds is \<open>car7_added\<close>, whose snapshot decodes to the name \<open>old\<close>,
  but \<^verbatim>\<open>revert\<close> saves \<^verbatim>\<open>self.prev_changes.object\<close>, the live row, and the database after
  the revert is the database before it.
\<close>

theorem revert_changed_saves_live_row:
  "action car7_changed = ''Changed'' \<and>
   prev_changes shop_db car7_changed = Some car7_added \<and>
   get_object shop car7_added =
     Inr \<lparr>model = 1, pk = Some ''7'', field_values = [(''name'', JStr ''old'')]\<rparr> \<and>
   map_of (live shop_db) (1, ''7'') = Some [(''name'', JStr ''new'')] \<and>
   revert shop car7_changed shop_db = (None, shop_db)"
  by (simp add: revert_def atomic_def prev_changes_def objects_filter_def first_def object_def
      objects_get_def save_def get_object_def python_object_def record_pk_def fields_of_def
      str_int_def dec.simps digit_def shop_defs)

section \<open>History queries\<close>

text \<open>
  C10. \<^verbatim>\<open>get_changes_by_obj\<close> starts with \<^verbatim>\<open>model.objects.get(pk=obj_id)\<close>. When no live
  row has that key the call raises \<^verbatim>\<open>DoesNotExist\<close>, whatever \<^verbatim>\<open>related_objects\<close> is and
  whatever the history holds: the entries of a deleted object cannot be read this way.
\<close>

theorem get_changes_by_obj_needs_live_root:
  assumes "map_of (live s) (m, obj_id) = None"
  shows "get_changes_by_obj sc s m obj_id related = Inl DoesNotExist"
  using assms by (simp add: get_changes_by_obj_def objects_get_def)

theorem get_changes_by_obj_needs_live_root_witness:
  "car5_added \<in> set (history shop_db) \<and> content_type_id car5_added = 1 \<and>
   object_id car5_added = ''5'' \<and>
   get_changes_by_obj shop shop_db 1 ''5'' All = Inl DoesNotExist \<and>
   get_changes_by_obj shop shop_db 1 ''5'' (Listed []) = Inl DoesNotExist"
proof -
  have a: "map_of (live shop_db) (1, ''5'') = None"
    by (simp add: shop_db_def)
  show ?thesis
    using get_changes_by_obj_needs_live_root [OF a, of shop All]
      get_changes_by_obj_needs_live_root [OF a, of shop "Listed []"]
    by (simp add: shop_db_def car5_added_def entry_def)
qed

text \<open>
  C7 on the shop. Owner 1 has no passport (the one-to-one relation is skipped and the
  query succeeds) and is the seller of transfer 10 and the buyer of transfer 11. Both
  relations have the related model \<open>transfer\<close>, so \<^verbatim>\<open>history_objects.update\<close> stores the
  keys of \<open>buyer\<close> over those of \<open>seller\<close>: the entry of transfer 10, a record related to
  the root, is not in the result.
\<close>

theorem closure_overwrites_same_model:
  "accessor_keys shop_db \<lparr>one_to_one = False, related_model = 3, field_name = ''seller''\<rparr> ''1'' = [''10''] \<and>
   accessor_keys shop_db \<lparr>one_to_one = False, related_model = 3, field_name = ''buyer''\<rparr> ''1'' = [''11''] \<and>
   transfer10_added \<in> set (history shop_db) \<and>
   content_type_id transfer10_added = 3 \<and> object_id transfer10_added = ''10'' \<and>
   get_changes_by_obj shop shop_db 2 ''1'' All = Inr [transfer11_added, owner1_added] \<and>
   transfer10_added \<notin> set [transfer11_added, owner1_added]"
  by (simp add: get_changes_by_obj_def objects_get_def accessor_keys_def qobj_def objects_filter_def
      str_int_def dec.simps digit_def shop_defs)

section \<open>Reverting a revision\<close>

inductive_simps reverted_Nil: "reverted_in_order sc [] s s'"
inductive_simps reverted_Cons: "reverted_in_order sc (i # rest) s s'"

lemma revert_error_keeps: "revert sc i s = (Some e, s') \<Longrightarrow> s' = s"
  by (auto simp: revert_def atomic_def split: sum.splits)

lemma revert_each_ok: "revert_each sc cs s = (None, s') \<longleftrightarrow> reverted_in_order sc cs s s'"
proof (induction cs arbitrary: s)
  case Nil
  show ?case by (auto simp: reverted_Nil)
next
  case (Cons i rest)
  show ?case
  proof (cases "revert sc i s")
    case (Pair r s1)
    with Cons show ?thesis
      by (cases r) (auto simp: reverted_Cons)
  qed
qed

lemma revert_each_failed:
  "revert_each sc cs s = (Some e, s') \<longleftrightarrow>
   (\<exists>pre i post. cs = pre @ i # post \<and> reverted_in_order sc pre s s' \<and>
      revert sc i s' = (Some e, s'))"
proof (induction cs arbitrary: s)
  case Nil
  show ?case by simp
next
  case (Cons c rest)
  have split: "(\<exists>pre i post. c # rest = pre @ i # post \<and> reverted_in_order sc pre s s' \<and>
          revert sc i s' = (Some e, s')) \<longleftrightarrow>
        (s' = s \<and> revert sc c s = (Some e, s)) \<or>
        (\<exists>s1. revert sc c s = (None, s1) \<and>
           (\<exists>pre i post. rest = pre @ i # post \<and> reverted_in_order sc pre s1 s' \<and>
              revert sc i s' = (Some e, s')))"
    (is "?L \<longleftrightarrow> ?A \<or> ?B")
  proof
    assume ?L
    then obtain pre i post where p: "c # rest = pre @ i # post" "reverted_in_order sc pre s s'"
      "revert sc i s' = (Some e, s')" by blast
    show "?A \<or> ?B"
    proof (cases pre)
      case Nil
      with p show ?thesis by (simp add: reverted_Nil)
    next
      case (Cons c' pre')
      with p(1) have eq: "c' = c" "rest = pre' @ i # post" by simp_all
      from p(2) Cons eq(1) obtain s1 where "revert sc c s = (None, s1)"
        "reverted_in_order sc pre' s1 s'" by (auto simp: reverted_Cons)
      with eq(2) p(3) have ?B by blast
      then show ?thesis ..
    qed
  next
    assume "?A \<or> ?B"
    then show ?L
    proof
      assume ?A
      then have "c # rest = [] @ c # rest \<and> reverted_in_order sc [] s s' \<and>
         revert sc c s' = (Some e, s')" by (simp add: reverted_Nil)
      then show ?L by blast
    next
      assume ?B
      then obtain s1 pre i post where "revert sc c s = (None, s1)" "rest = pre @ i # post"
        "reverted_in_order sc pre s1 s'" "revert sc i s' = (Some e, s')" by blast
      then have "c # rest = (c # pre) @ i # post \<and> reverted_in_order sc (c # pre) s s' \<and>
         revert sc i s' = (Some e, s')" by (auto simp: reverted_Cons)
      then show ?L by blast
    qed
  qed
  show ?case
  proof (cases "revert sc c s")
    case (Pair r s1)
    show ?thesis
    proof (cases r)
      case None
      with Pair Cons.IH [of s1] show ?thesis
        unfolding split by simp
    next
      case (Some e0)
      with Pair have "s1 = s" using revert_error_keeps by blast
      with Pair Some show ?thesis
        unfolding split by auto
    qed
  qed
qed

text \<open>
  C6. \<^verbatim>\<open>Revision.revert\<close> runs over the entries of the revision, newest first (by
  descending identifier). It ends without error exactly when every entry was reverted
  in that order, each on the database the one before it left. It ends with an error
  \<open>e\<close> exactly when the entries before some entry \<open>i\<close> were reverted in order and the
  revert of \<open>i\<close> raised \<open>e\<close>: the database is the one those earlier reverts left, and no
  entry after \<open>i\<close> is reverted.
\<close>

theorem Revision_revert_newest_first:
  "sorted_wrt (\<lambda>a b. ch_id b \<le> ch_id a) (changes_set self s) \<and>
   set (changes_set self s) = {c \<in> set (history s). revision_id c = Some (rev_id self)} \<and>
   (Revision_revert sc self s = (None, s') \<longleftrightarrow> reverted_in_order sc (changes_set self s) s s') \<and>
   (Revision_revert sc self s = (Some e, s') \<longleftrightarrow>
      (\<exists>pre i post. changes_set self s = pre @ i # post \<and> reverted_in_order sc pre s s' \<and>
         revert sc i s' = (Some e, s')))"
  by (simp add: changes_set_def objects_filter_descending set_objects_filter Revision_revert_def
      revert_each_ok revert_each_failed)

theorem Revision_revert_newest_first_witness:
  "map ch_id (changes_set \<lparr>rev_id = 2, rev_comment = None\<rparr> shop_db) = [8, 5, 2] \<and>
   (\<exists>s1. revert shop car8_deleted shop_db = (None, s1) \<and>
         revert shop car5_added s1 = (Some AttributeError, s1) \<and>
         Revision_revert shop \<lparr>rev_id = 2, rev_comment = None\<rparr> shop_db = (Some AttributeError, s1))"
proof -
  let ?r = "\<lparr>rev_id = 2, rev_comment = None\<rparr>"
  define s1 where "s1 = snd (revert shop car8_deleted shop_db)"
  have cs: "changes_set ?r shop_db = [] @ car8_deleted # car5_added # [car7_changed]"
    by (simp add: changes_set_def objects_filter_def shop_defs)
  have "fst (revert shop car8_deleted shop_db) = None"
    by (simp add: revert_def atomic_def get_object_def python_object_def record_pk_def fields_of_def save_def
        create_changes_def encode_def label_of_def str_int_def dec.simps digit_def shop_def
        car8_deleted_def entry_def snapshot_def)
  then have r8: "revert shop car8_deleted shop_db = (None, s1)"
    by (simp add: s1_def prod_eq_iff)
  have "map_of (live s1) (1, ''5'') = None"
    by (simp add: s1_def revert_def atomic_def get_object_def python_object_def record_pk_def
        fields_of_def save_def create_changes_def encode_def label_of_def str_int_def dec.simps digit_def
        shop_def shop_db_def car8_deleted_def entry_def snapshot_def)
  then have r5: "revert shop car5_added s1 = (Some AttributeError, s1)"
    by (simp add: revert_def atomic_def object_def objects_get_def car5_added_def entry_def)
  have pre: "reverted_in_order shop [car8_deleted] shop_db s1"
    using r8 by (simp add: reverted_Cons reverted_Nil)
  have "changes_set ?r shop_db = [car8_deleted] @ car5_added # [car7_changed] \<and>
        reverted_in_order shop [car8_deleted] shop_db s1 \<and>
        revert shop car5_added s1 = (Some AttributeError, s1)"
    using cs pre r5 by simp
  then have "\<exists>pre i post. changes_set ?r shop_db = pre @ i # post \<and>
        reverted_in_order shop pre shop_db s1 \<and> revert shop i s1 = (Some AttributeError, s1)"
    by blast
  then have "Revision_revert shop ?r shop_db = (Some AttributeError, s1)"
    using Revision_revert_newest_first [of ?r shop_db shop s1 AttributeError] by blast
  moreover have "map ch_id (changes_set ?r shop_db) = [8, 5, 2]"
    unfolding cs by (simp add: car8_deleted_def car5_added_def car7_changed_def entry_def)
  ultimately show ?thesis using r8 r5 by blast
qed

section \<open>Deleting a revision\<close>

text \<open>
  C5, as the code has it. \<^verbatim>\<open>Changes.revision\<close> is declared without \<^verbatim>\<open>on_delete\<close>, so
  deleting a revision deletes the entries that point to it; the other entries, the other
  revisions and the live rows stay as they are.
\<close>

theorem Revision_delete_cascades:
  "history (Revision_delete self s) =
     filter (\<lambda>c. revision_id c \<noteq> Some (rev_id self)) (history s) \<and>
   revisions (Revision_delete self s) = filter (\<lambda>r. rev_id r \<noteq> rev_id self) (revisions s) \<and>
   live (Revision_delete self s) = live s"
  by (simp add: Revision_delete_def on_referenced_delete_def on_delete_rule_def revision_field_def)

text \<open>
  C5 as stated fails: \<open>car7_added\<close> belongs to revision 1 and is gone once revision 1 is
  deleted.
\<close>

theorem Revision_delete_counterexample:
  "car7_added \<in> set (history shop_db) \<and> revision_id car7_added = Some 1 \<and>
   car7_added \<notin> set (history (Revision_delete \<lparr>rev_id = 1, rev_comment = Some ''import''\<rparr> shop_db))"
  by (simp add: Revision_delete_def on_referenced_delete_def on_delete_rule_def revision_field_def
      shop_defs)

section \<open>Patching a snapshot\<close>





text \<open>
  C9, as the code has it. With no blob both patch operations raise \<^verbatim>\<open>TypeError\<close>; with a
  blob that is not JSON both raise \<^verbatim>\<open>ValueError\<close>. Neither changes anything.
\<close>

theorem patch_without_blob:
  "(serialized_data self = None \<longrightarrow>
      set_attr self attr v s = Inl TypeError \<and> del_attr self attr s = Inl TypeError) \<and>
   (serialized_data self = Some NotJSON \<longrightarrow>
      set_attr self attr v s = Inl ValueError \<and> del_attr self attr s = Inl ValueError)"
  by (simp add: set_attr_def del_attr_def loads_def)

theorem patch_without_blob_witness:
  "set_attr (car7_added\<lparr>serialized_data := None\<rparr>) ''name'' (JStr ''x'') shop_db = Inl TypeError \<and>
   del_attr (car7_added\<lparr>serialized_data := None\<rparr>) ''name'' shop_db = Inl TypeError \<and>
   set_attr (car7_added\<lparr>serialized_data := Some NotJSON\<rparr>) ''name'' (JStr ''x'') shop_db = Inl ValueError \<and>
   del_attr (car7_added\<lparr>serialized_data := Some NotJSON\<rparr>) ''name'' shop_db = Inl ValueError"
  using patch_without_blob [of "car7_added\<lparr>serialized_data := None\<rparr>" "''name''" "JStr ''x''" shop_db]
    patch_without_blob [of "car7_added\<lparr>serialized_data := Some NotJSON\<rparr>" "''name''" "JStr ''x''" shop_db]
  by simp

text \<open>
  C9 as stated fails: the entry without blob and the entry with a blob that is not JSON
  fail with two different exceptions, so no one error kind marks a malformed snapshot.
\<close>

theorem patch_error_kind_counterexample:
  "\<not> (\<exists>e. set_attr (car7_added\<lparr>serialized_data := None\<rparr>) ''name'' (JStr ''x'') shop_db = Inl e \<and>
           set_attr (car7_added\<lparr>serialized_data := Some NotJSON\<rparr>) ''name'' (JStr ''x'') shop_db = Inl e)"
  by (simp add: set_attr_def loads_def)

end
